theory Spec2Isabelle
  imports Main "HOL-Library.Word" "HOL-Library.List_Lexorder"
begin

unbundle bit_operations_syntax

section \<open>Results of fallible Go functions\<close>

text \<open>
  A Go function of the codec returns a value together with an \<open>error\<close>, or it panics
  (an index out of range).  The three outcomes are kept apart, so that "never panics" is
  a statement about the model and not a consequence of how it is written.  \<open>Err\<close>
  carries the text given to \<open>errors.New\<close>.
\<close>

datatype 'a result = Ok 'a | Err string | Panic string

fun is_Err :: "'a result \<Rightarrow> bool" where
  "is_Err (Err _) = True"
| "is_Err _ = False"

fun is_Panic :: "'a result \<Rightarrow> bool" where
  "is_Panic (Panic _) = True"
| "is_Panic _ = False"

section \<open>Package encoding: the order-preserving codec\<close>

type_synonym byte = "8 word"
type_synonym uint64 = "64 word"

text \<open>Go's \<open>int64\<close> is the same 64 bits read as two's complement (\<open>sint\<close>); the
  conversions \<open>uint64(x)\<close> and \<open>int64(x)\<close> keep the bits.\<close>

type_synonym int64 = "64 word"

text \<open>\<open>math.MaxInt64\<close>\<close>

definition MaxInt64 :: uint64 where
  "MaxInt64 = 0x7FFFFFFFFFFFFFFF"

subsection \<open>encoding/binary: big-endian 64-bit words\<close>

text \<open>\<open>binary.BigEndian.PutUint64(b, v)\<close>: \<open>b[0] = byte(v >> 56)\<close>, ...,
  \<open>b[7] = byte(v)\<close>; the eight bytes written.\<close>

definition PutUint64 :: "uint64 \<Rightarrow> byte list" where
  "PutUint64 v =
     [ucast (drop_bit 56 v), ucast (drop_bit 48 v), ucast (drop_bit 40 v),
      ucast (drop_bit 32 v), ucast (drop_bit 24 v), ucast (drop_bit 16 v),
      ucast (drop_bit 8 v), ucast v]"

text \<open>\<open>binary.BigEndian.Uint64(b)\<close>: the bounds check \<open>_ = b[7]\<close> panics on a slice
  shorter than 8 bytes; otherwise
  \<open>uint64(b[7]) | uint64(b[6])<<8 | ... | uint64(b[0])<<56\<close>.\<close>

definition Uint64 :: "byte list \<Rightarrow> uint64 result" where
  "Uint64 b =
     (if length b < 8 then Panic ''index out of range''
      else Ok (ucast (b ! 7) OR push_bit 8 (ucast (b ! 6)) OR push_bit 16 (ucast (b ! 5))
        OR push_bit 24 (ucast (b ! 4)) OR push_bit 32 (ucast (b ! 3))
        OR push_bit 40 (ucast (b ! 2)) OR push_bit 48 (ucast (b ! 1))
        OR push_bit 56 (ucast (b ! 0))))"

subsection \<open>Booleans\<close>

definition AppendBool :: "byte list \<Rightarrow> bool \<Rightarrow> byte list" where
  "AppendBool buf x = (if x then buf @ [255] else buf @ [254])"

text \<open>\<open>buf[0]\<close> panics on an empty slice; the length check before it is the source's.\<close>

definition index0 :: "byte list \<Rightarrow> byte result" where
  "index0 buf = (case buf of [] \<Rightarrow> Panic ''index out of range'' | b # _ \<Rightarrow> Ok b)"

definition DecodeBool :: "byte list \<Rightarrow> bool result" where
  "DecodeBool buf =
     (if length buf = 0 then Err ''cannot decode buffer to bool''
      else (case index0 buf of
              Ok b \<Rightarrow> Ok (b = 255)
            | Err e \<Rightarrow> Err e
            | Panic p \<Rightarrow> Panic p))"

subsection \<open>Unsigned and signed 64-bit integers\<close>

definition AppendUint64 :: "byte list \<Rightarrow> uint64 \<Rightarrow> byte list" where
  "AppendUint64 buf x = buf @ PutUint64 x"

definition DecodeUint64 :: "byte list \<Rightarrow> uint64 result" where
  "DecodeUint64 buf =
     (if length buf < 8 then Err ''cannot decode buffer to uint64''
      else Uint64 buf)"

definition AppendInt64 :: "byte list \<Rightarrow> int64 \<Rightarrow> byte list" where
  "AppendInt64 buf x = buf @ PutUint64 (x + MaxInt64 + 1)"

text \<open>\<open>x, err := DecodeUint64(buf); x -= math.MaxInt64 + 1; return int64(x), err\<close>:
  the error of \<open>DecodeUint64\<close> is handed on (Go returns a value beside it, which a
  caller that sees the error does not use).\<close>

definition DecodeInt64 :: "byte list \<Rightarrow> int64 result" where
  "DecodeInt64 buf =
     (case DecodeUint64 buf of
        Ok x \<Rightarrow> Ok (x - (MaxInt64 + 1))
      | Err e \<Rightarrow> Err e
      | Panic p \<Rightarrow> Panic p)"

subsection \<open>IEEE-754 binary64\<close>

text \<open>
  A \<open>float64\<close> is its 64-bit pattern: \<open>math.Float64bits\<close> and
  \<open>math.Float64frombits\<close> reinterpret the bits and are inverse to each other.  The
  language's comparisons are those of IEEE-754: bit 63 is the sign, bits 62..52 the
  biased exponent, bits 51..0 the fraction; an all-ones exponent with a non-zero
  fraction is a NaN, and a NaN compares false with everything.
\<close>

datatype float64 = Float64frombits (Float64bits: uint64)

definition sign_bit :: "float64 \<Rightarrow> bool" where
  "sign_bit x = bit (Float64bits x) 63"

definition exponent :: "float64 \<Rightarrow> nat" where
  "exponent x = unat (take_bit 11 (drop_bit 52 (Float64bits x)))"

definition fraction :: "float64 \<Rightarrow> nat" where
  "fraction x = unat (take_bit 52 (Float64bits x))"

definition IsNaN :: "float64 \<Rightarrow> bool" where
  "IsNaN x = (exponent x = 2047 \<and> fraction x \<noteq> 0)"

text \<open>The absolute value times \<open>2 ^ 1074\<close>, a natural number: a subnormal is
  \<open>fraction * 2 ^ (-1074)\<close>, a normal number is
  \<open>(2 ^ 52 + fraction) * 2 ^ (exponent - 1075)\<close>.  An infinity (exponent 2047,
  fraction 0) gets the value the same formula gives, which lies above every finite
  number, as IEEE-754 orders it.\<close>

definition magnitude :: "float64 \<Rightarrow> nat" where
  "magnitude x =
     (if exponent x = 0 then fraction x
      else (2 ^ 52 + fraction x) * 2 ^ (exponent x - 1))"

definition float64_val :: "float64 \<Rightarrow> int" where
  "float64_val x = (if sign_bit x then - int (magnitude x) else int (magnitude x))"

text \<open>Go's \<open>a < b\<close> and \<open>a >= b\<close> on \<open>float64\<close>.\<close>

definition float64_less :: "float64 \<Rightarrow> float64 \<Rightarrow> bool" where
  "float64_less a b = (\<not> IsNaN a \<and> \<not> IsNaN b \<and> float64_val a < float64_val b)"

definition float64_ge :: "float64 \<Rightarrow> float64 \<Rightarrow> bool" where
  "float64_ge a b = (\<not> IsNaN a \<and> \<not> IsNaN b \<and> float64_val a \<ge> float64_val b)"

text \<open>The constant \<open>0\<close> of \<open>x >= 0\<close>, converted to \<open>float64\<close>: positive zero.\<close>

definition float64_zero :: float64 where
  "float64_zero = Float64frombits 0"

subsection \<open>Floating-point numbers\<close>

text \<open>\<open>1 << 63\<close> is \<open>0x8000000000000000\<close>; the untyped constant \<open>1<<64 - 1\<close> is
  computed exactly and is \<open>0xFFFFFFFFFFFFFFFF\<close>.\<close>

definition AppendFloat64 :: "byte list \<Rightarrow> float64 \<Rightarrow> byte list" where
  "AppendFloat64 buf x =
     (let fb = Float64bits x;
          fb' = (if float64_ge x float64_zero then fb XOR 0x8000000000000000
                 else fb XOR 0xFFFFFFFFFFFFFFFF)
      in AppendUint64 buf fb')"

definition DecodeFloat64 :: "byte list \<Rightarrow> float64 result" where
  "DecodeFloat64 buf =
     (if length buf < 8 then Err ''cannot decode buffer to float64''
      else (case Uint64 buf of
              Ok x \<Rightarrow>
                Ok (Float64frombits
                  (if x AND 0x8000000000000000 \<noteq> 0 then x XOR 0x8000000000000000
                   else x XOR 0xFFFFFFFFFFFFFFFF))
            | Err e \<Rightarrow> Err e
            | Panic p \<Rightarrow> Panic p))"

text \<open>Two values used below: \<open>-0.0\<close> (only the sign bit set) and \<open>-1.0\<close>.\<close>

definition neg_zero :: float64 where
  "neg_zero = Float64frombits 0x8000000000000000"

definition neg_one :: float64 where
  "neg_one = Float64frombits 0xBFF0000000000000"

section \<open>Theorems\<close>

subsection \<open>Big-endian bytes\<close>

lemma length_PutUint64: "length (PutUint64 v) = 8"
  by (simp add: PutUint64_def)

lemma ucast_byte_take_bit: "(ucast (ucast (w :: uint64) :: byte) :: uint64) = take_bit 8 w"
  by (rule bit_word_eqI) (auto simp add: bit_simps)

lemma split_low_byte: "take_bit 8 (w :: uint64) OR push_bit 8 (drop_bit 8 w) = w"
proof (rule bit_word_eqI)
  fix n assume n: "n < LENGTH(64)"
  show "bit (take_bit 8 w OR push_bit 8 (drop_bit 8 w)) n = bit w n"
    using n by (cases "n < 8") (simp_all add: bit_simps not_less)
qed

lemma top_byte: "take_bit 8 (drop_bit 56 (w :: uint64)) = drop_bit 56 w"
  by (rule bit_word_eqI) (auto simp add: bit_simps dest: bit_imp_le_length)

lemma bytes_reassemble:
  "ucast (ucast v :: byte) OR push_bit 8 (ucast (ucast (drop_bit 8 v) :: byte))
      OR push_bit 16 (ucast (ucast (drop_bit 16 v) :: byte))
      OR push_bit 24 (ucast (ucast (drop_bit 24 v) :: byte))
      OR push_bit 32 (ucast (ucast (drop_bit 32 v) :: byte))
      OR push_bit 40 (ucast (ucast (drop_bit 40 v) :: byte))
      OR push_bit 48 (ucast (ucast (drop_bit 48 v) :: byte))
      OR push_bit 56 (ucast (ucast (drop_bit 56 v) :: byte)) = (v :: uint64)"
proof -
  have s: "\<And>w :: uint64. w = take_bit 8 w OR push_bit 8 (drop_bit 8 w)"
    by (simp add: split_low_byte)
  have "v = take_bit 8 v OR push_bit 8 (drop_bit 8 v)" by (rule s)
  also have "drop_bit 8 v = take_bit 8 (drop_bit 8 v) OR push_bit 8 (drop_bit 16 v)"
    using s [of "drop_bit 8 v"] by simp
  also have "drop_bit 16 v = take_bit 8 (drop_bit 16 v) OR push_bit 8 (drop_bit 24 v)"
    using s [of "drop_bit 16 v"] by simp
  also have "drop_bit 24 v = take_bit 8 (drop_bit 24 v) OR push_bit 8 (drop_bit 32 v)"
    using s [of "drop_bit 24 v"] by simp
  also have "drop_bit 32 v = take_bit 8 (drop_bit 32 v) OR push_bit 8 (drop_bit 40 v)"
    using s [of "drop_bit 32 v"] by simp
  also have "drop_bit 40 v = take_bit 8 (drop_bit 40 v) OR push_bit 8 (drop_bit 48 v)"
    using s [of "drop_bit 40 v"] by simp
  also have "drop_bit 48 v = take_bit 8 (drop_bit 48 v) OR push_bit 8 (drop_bit 56 v)"
    using s [of "drop_bit 48 v"] by simp
  also have "drop_bit 56 v = take_bit 8 (drop_bit 56 v)"
    by (simp add: top_byte)
  finally have "v = take_bit 8 v OR push_bit 8 (take_bit 8 (drop_bit 8 v))
      OR push_bit 16 (take_bit 8 (drop_bit 16 v))
      OR push_bit 24 (take_bit 8 (drop_bit 24 v))
      OR push_bit 32 (take_bit 8 (drop_bit 32 v))
      OR push_bit 40 (take_bit 8 (drop_bit 40 v))
      OR push_bit 48 (take_bit 8 (drop_bit 48 v))
      OR push_bit 56 (take_bit 8 (drop_bit 56 v))"
    by (simp add: ac_simps)
  then show ?thesis
    by (simp add: ucast_byte_take_bit)
qed

lemma Uint64_PutUint64: "Uint64 (PutUint64 v) = Ok v"
  using bytes_reassemble [of v] by (simp add: Uint64_def PutUint64_def)

lemma Uint64_not_Panic: "8 \<le> length buf \<Longrightarrow> \<exists>v. Uint64 buf = Ok v"
  by (simp add: Uint64_def)

subsection \<open>Signed integers\<close>

lemma bias_word: "(x :: uint64) + MaxInt64 + 1 = word_of_int (sint x + 2 ^ 63)"
  by (simp add: MaxInt64_def)

lemma bias_uint: "uint ((x :: uint64) + MaxInt64 + 1) = sint x + 2 ^ 63"
proof -
  have lo: "- (2 ^ 63) \<le> sint x" using sint_ge [of x] by simp
  have hi: "sint x < 2 ^ 63" using sint_lt [of x] by simp
  have "uint (word_of_int (sint x + 2 ^ 63) :: uint64) = (sint x + 2 ^ 63) mod 2 ^ 64"
    by (simp only: uint_word_of_int) simp
  also have "\<dots> = sint x + 2 ^ 63"
    using lo hi by (intro mod_pos_pos_trivial) simp_all
  finally show ?thesis by (simp add: bias_word)
qed

text \<open>
  Claim C5.  For every \<open>int64\<close> value \<open>x\<close>, \<open>AppendInt64\<close> appends what
  \<open>AppendUint64\<close> appends for the unsigned number \<open>x + 2 ^ 63\<close> (the sum taken in the
  integers: it lies in \<open>0 ..< 2 ^ 64\<close>, nothing wraps), that is, its eight big-endian
  bytes; and \<open>DecodeInt64\<close> of the bytes appended to an empty buffer is \<open>x\<close> again.
  \<open>x\<close> ranges over all 64-bit patterns, \<open>math.MinInt64\<close> and \<open>math.MaxInt64\<close>
  among them.
\<close>

theorem AppendInt64_bias_roundtrip:
  "AppendInt64 buf x = AppendUint64 buf (x + MaxInt64 + 1)
   \<and> uint (x + MaxInt64 + 1) = sint x + 2 ^ 63
   \<and> DecodeInt64 (AppendInt64 [] x) = Ok x"
  by (simp add: bias_uint AppendInt64_def AppendUint64_def DecodeInt64_def DecodeUint64_def
      Uint64_PutUint64 length_PutUint64)

subsection \<open>Short input\<close>

text \<open>
  Claim C9.  No decode function panics, whatever the buffer, and each returns an error
  exactly when the buffer is too short: \<open>DecodeBool\<close> exactly on the empty buffer,
  \<open>DecodeUint64\<close>, \<open>DecodeInt64\<close> and \<open>DecodeFloat64\<close> exactly on a buffer of fewer
  than 8 bytes.  The panics the model can express are those of \<open>buf[0]\<close> and of
  \<open>binary.BigEndian.Uint64\<close>; the length checks of the source keep them out.
\<close>

theorem decode_errors_iff_short:
  "\<not> is_Panic (DecodeBool buf) \<and> (is_Err (DecodeBool buf) \<longleftrightarrow> length buf = 0)
   \<and> \<not> is_Panic (DecodeUint64 buf) \<and> (is_Err (DecodeUint64 buf) \<longleftrightarrow> length buf < 8)
   \<and> \<not> is_Panic (DecodeInt64 buf) \<and> (is_Err (DecodeInt64 buf) \<longleftrightarrow> length buf < 8)
   \<and> \<not> is_Panic (DecodeFloat64 buf) \<and> (is_Err (DecodeFloat64 buf) \<longleftrightarrow> length buf < 8)"
  by (cases buf) (simp_all add: DecodeBool_def index0_def DecodeUint64_def DecodeInt64_def
      DecodeFloat64_def Uint64_def)

subsection \<open>Booleans\<close>

text \<open>
  Claim C10.  On a non-empty buffer (first byte \<open>b\<close>, any rest) \<open>DecodeBool\<close> returns
  no error, and its value is true exactly when \<open>b\<close> is 255.  In particular the bytes 0
  and 1, which \<open>AppendBool\<close> never writes, decode to false and are not rejected.
\<close>

theorem DecodeBool_first_byte:
  "DecodeBool (b # buf) = Ok (b = 255)
   \<and> DecodeBool (0 # buf) = Ok False \<and> DecodeBool (1 # buf) = Ok False
   \<and> AppendBool [] x \<noteq> [0] \<and> AppendBool [] x \<noteq> [1]"
  by (simp add: DecodeBool_def index0_def AppendBool_def)

subsection \<open>Floating-point numbers\<close>

lemma neg_zero_fields: "sign_bit neg_zero" "exponent neg_zero = 0" "fraction neg_zero = 0"
  by (simp_all add: sign_bit_def exponent_def fraction_def neg_zero_def)

lemma neg_one_fields: "sign_bit neg_one" "exponent neg_one = 1023" "fraction neg_one = 0"
  by (simp_all add: sign_bit_def exponent_def fraction_def neg_one_def)

lemma float64_zero_fields:
  "\<not> sign_bit float64_zero" "exponent float64_zero = 0" "fraction float64_zero = 0"
  by (simp_all add: sign_bit_def exponent_def fraction_def float64_zero_def)

lemma neg_zero_not_NaN: "\<not> IsNaN neg_zero"
  by (simp add: IsNaN_def neg_zero_fields)

lemma neg_one_not_NaN: "\<not> IsNaN neg_one"
  by (simp add: IsNaN_def neg_one_fields)

lemma neg_zero_ge_zero: "float64_ge neg_zero float64_zero"
  by (simp add: float64_ge_def IsNaN_def float64_val_def magnitude_def neg_zero_fields
      float64_zero_fields)

lemma neg_one_not_ge_zero: "\<not> float64_ge neg_one float64_zero"
  by (simp add: float64_ge_def IsNaN_def float64_val_def magnitude_def neg_one_fields
      float64_zero_fields)

lemma neg_one_less_neg_zero: "float64_less neg_one neg_zero"
  by (simp add: float64_less_def IsNaN_def float64_val_def magnitude_def neg_one_fields
      neg_zero_fields)

lemma AppendFloat64_neg_zero: "AppendFloat64 [] neg_zero = [0, 0, 0, 0, 0, 0, 0, 0]"
  by (simp add: AppendFloat64_def neg_zero_ge_zero AppendUint64_def PutUint64_def Let_def)
    (simp add: neg_zero_def)

lemma AppendFloat64_neg_one:
  "AppendFloat64 [] neg_one = [0x40, 0x0F, 0xFF, 0xFF, 0xFF, 0xFF, 0xFF, 0xFF]"
  by (simp add: AppendFloat64_def neg_one_not_ge_zero AppendUint64_def PutUint64_def Let_def)
    (simp add: neg_one_def)

lemma DecodeFloat64_zero_bytes:
  "DecodeFloat64 [0, 0, 0, 0, 0, 0, 0, 0] = Ok (Float64frombits 0xFFFFFFFFFFFFFFFF)"
  by (simp add: DecodeFloat64_def Uint64_def)

lemma all_ones_IsNaN: "IsNaN (Float64frombits 0xFFFFFFFFFFFFFFFF)"
  by (simp add: IsNaN_def exponent_def fraction_def)

lemma sign_mask: "(0x8000000000000000 :: uint64) = 2 ^ 63"
  by simp

lemma all_ones: "(0xFFFFFFFFFFFFFFFF :: uint64) = - 1"
  by simp

lemma and_sign_iff: "(w AND (0x8000000000000000 :: uint64) \<noteq> 0) \<longleftrightarrow> bit w 63"
proof -
  have "w AND 2 ^ 63 = 0 \<longleftrightarrow> \<not> bit w 63"
    by (rule and_exp_eq_0_iff_not_bit)
  then show ?thesis by simp
qed

lemma bit63_flip_sign: "bit (w XOR (0x8000000000000000 :: uint64)) 63 \<longleftrightarrow> \<not> bit w 63"
  unfolding sign_mask by (simp add: bit_simps)

lemma bit63_flip_all: "bit (w XOR (0xFFFFFFFFFFFFFFFF :: uint64)) 63 \<longleftrightarrow> \<not> bit w 63"
  unfolding all_ones by (simp add: bit_simps)

lemma decode_flip_sign:
  "\<not> bit w 63 \<Longrightarrow>
    DecodeFloat64 (PutUint64 (w XOR 0x8000000000000000)) = Ok (Float64frombits w)"
  using bit63_flip_sign [of w] and_sign_iff [of "w XOR 0x8000000000000000"]
  by (simp add: DecodeFloat64_def Uint64_PutUint64 length_PutUint64 xor.assoc)

lemma decode_flip_all:
  "bit w 63 \<Longrightarrow>
    DecodeFloat64 (PutUint64 (w XOR 0xFFFFFFFFFFFFFFFF)) = Ok (Float64frombits w)"
  using bit63_flip_all [of w] and_sign_iff [of "w XOR 0xFFFFFFFFFFFFFFFF"]
  by (simp add: DecodeFloat64_def Uint64_PutUint64 length_PutUint64 xor.assoc)

lemma only_sign_bit:
  assumes "take_bit 52 w = 0" "take_bit 11 (drop_bit 52 w) = 0" "bit w 63"
  shows "(w :: uint64) = 2 ^ 63"
proof (rule bit_word_eqI)
  fix n assume n: "n < LENGTH(64)"
  have lo: "\<not> bit w n" if "n < 52"
  proof -
    have "bit (take_bit 52 w) n = bit w n"
      using that by (simp add: bit_simps)
    then show ?thesis using assms(1) by simp
  qed
  have mid: "\<not> bit w n" if "52 \<le> n" "n < 63"
  proof -
    have "\<not> bit (take_bit 11 (drop_bit 52 w)) (n - 52)"
      using assms(2) by simp
    then show ?thesis using that by (simp add: bit_simps)
  qed
  have "n = 63 \<or> n < 52 \<or> (52 \<le> n \<and> n < 63)" using n by auto
  then show "bit w n = bit (2 ^ 63 :: uint64) n"
    unfolding bit_exp_iff using lo mid assms(3) by (auto simp add: possible_bit_word)
qed

lemma magnitude_zero_iff: "magnitude x = 0 \<longleftrightarrow> exponent x = 0 \<and> fraction x = 0"
  by (simp add: magnitude_def)

text \<open>\<open>x >= 0\<close> holds of a number with a clear sign bit, and of \<open>-0.0\<close>.\<close>

lemma float64_ge_zero_iff:
  "float64_ge x float64_zero \<longleftrightarrow> \<not> IsNaN x \<and> (\<not> sign_bit x \<or> magnitude x = 0)"
proof -
  have z: "\<not> IsNaN float64_zero" "float64_val float64_zero = 0"
    by (simp_all add: IsNaN_def float64_val_def magnitude_def sign_bit_def exponent_def
        fraction_def float64_zero_def)
  have "0 \<le> float64_val x \<longleftrightarrow> \<not> sign_bit x \<or> magnitude x = 0"
    by (simp add: float64_val_def)
  then show ?thesis by (simp add: float64_ge_def z)
qed

lemma negative_zero_unique:
  assumes "sign_bit x" "magnitude x = 0"
  shows "x = neg_zero"
proof -
  have "exponent x = 0" "fraction x = 0"
    using assms(2) by (simp_all add: magnitude_zero_iff)
  then have "take_bit 11 (drop_bit 52 (Float64bits x)) = 0" "take_bit 52 (Float64bits x) = 0"
    by (simp_all add: exponent_def fraction_def unat_eq_0)
  then have "Float64bits x = 2 ^ 63"
    using assms(1) by (intro only_sign_bit) (simp_all add: sign_bit_def)
  then show ?thesis
    by (cases x) (simp add: neg_zero_def)
qed

text \<open>Every number other than \<open>-0.0\<close> is restored: the defect of \<open>AppendFloat64\<close>
  is confined to that one value (and to the NaNs with a clear sign bit, which the codec
  leaves open).\<close>

lemma float64_roundtrip_except_neg_zero:
  assumes "\<not> IsNaN x" "x \<noteq> neg_zero"
  shows "DecodeFloat64 (AppendFloat64 [] x) = Ok x"
proof (cases "sign_bit x")
  case True
  then have "\<not> float64_ge x float64_zero"
    using assms negative_zero_unique [of x] by (auto simp add: float64_ge_zero_iff)
  then show ?thesis
    using True decode_flip_all [of "Float64bits x"]
    by (simp add: AppendFloat64_def AppendUint64_def sign_bit_def)
next
  case False
  then have "float64_ge x float64_zero"
    using assms by (simp add: float64_ge_zero_iff)
  then show ?thesis
    using False decode_flip_sign [of "Float64bits x"]
    by (simp add: AppendFloat64_def AppendUint64_def sign_bit_def)
qed

text \<open>
  Claim C1 (fails on the code).  The claim: decoding the bytes that \<open>AppendFloat64\<close>
  writes for a number \<open>x\<close> that is not a NaN gives \<open>x\<close> back, \<open>x = -0.0\<close> included.
  At \<open>-0.0\<close> the code does otherwise: \<open>x >= 0\<close> is true of \<open>-0.0\<close>, so only the sign
  bit is flipped and eight zero bytes are written; \<open>DecodeFloat64\<close> sees a clear high
  bit, flips all 64 bits, and returns the pattern \<open>0xFFFFFFFFFFFFFFFF\<close>, a NaN.
\<close>

theorem AppendFloat64_neg_zero_decodes_to_NaN:
  "\<not> IsNaN neg_zero
   \<and> AppendFloat64 [] neg_zero = [0, 0, 0, 0, 0, 0, 0, 0]
   \<and> DecodeFloat64 (AppendFloat64 [] neg_zero) = Ok (Float64frombits 0xFFFFFFFFFFFFFFFF)
   \<and> IsNaN (Float64frombits 0xFFFFFFFFFFFFFFFF)
   \<and> DecodeFloat64 (AppendFloat64 [] neg_zero) \<noteq> Ok neg_zero"
  by (simp add: AppendFloat64_neg_zero DecodeFloat64_zero_bytes all_ones_IsNaN
      neg_zero_not_NaN)
    (simp add: neg_zero_def)

text \<open>
  Claim C2 (fails on the code).  The claim: for numbers \<open>a < b\<close>, neither a NaN, the
  bytes of \<open>a\<close> are lexicographically below the bytes of \<open>b\<close>, the encoder flipping
  only the sign bit when the sign bit is 0 and all bits when it is 1 (\<open>-0.0\<close>
  included).  The code tests \<open>x >= 0\<close> instead of the sign bit: for \<open>-0.0\<close>, whose
  sign bit is 1, it flips only the sign bit, and the eight zero bytes it writes lie
  below the bytes of \<open>-1.0\<close>, although \<open>-1.0 < -0.0\<close>.
\<close>

theorem AppendFloat64_neg_zero_below_neg_one:
  "\<not> IsNaN neg_one \<and> \<not> IsNaN neg_zero \<and> float64_less neg_one neg_zero
   \<and> AppendFloat64 [] neg_zero < AppendFloat64 [] neg_one
   \<and> sign_bit neg_zero
   \<and> AppendFloat64 [] neg_zero
       = AppendUint64 [] (Float64bits neg_zero XOR 0x8000000000000000)"
  by (simp add: AppendFloat64_neg_zero AppendFloat64_neg_one neg_one_less_neg_zero
      neg_zero_fields neg_zero_not_NaN neg_one_not_NaN)
    (simp add: AppendUint64_def PutUint64_def neg_zero_def)

end
